theory Spec2Isabelle
  imports Complex_Main "HOL-Library.Sublist"
begin

section \<open>Python string operations used by \<open>main_upload_data.py\<close>\<close>

text \<open>
  Strings are \<^typ>\<open>string\<close>. The three tests of the source on strings are
  \<^item> \<open>sub in s\<close> (substring test), which is \<^term>\<open>sublist sub s\<close>,
  \<^item> \<open>s.endswith(suf)\<close>, which is \<^term>\<open>suffix suf s\<close>,
  \<^item> \<open>x in xs\<close> on a list of names, which is \<^term>\<open>x \<in> set xs\<close>.
\<close>

definition str_in :: "string \<Rightarrow> string \<Rightarrow> bool" where
  "str_in sub s = sublist sub s"

definition endswith :: "string \<Rightarrow> string \<Rightarrow> bool" where
  "endswith s suf = suffix suf s"

text \<open>
  \<open>s.replace(old, '')\<close>: one scan from the left; wherever \<open>old\<close> starts at the current
  position it is skipped as a whole, otherwise one character is kept. With an empty
  \<open>old\<close> and an empty replacement Python returns \<open>s\<close>.
\<close>

function str_remove :: "string \<Rightarrow> string \<Rightarrow> string" where
  "str_remove old [] = []"
| "str_remove old (c # cs) =
     (if old \<noteq> [] \<and> prefix old (c # cs)
      then str_remove old (drop (length old) (c # cs))
      else c # str_remove old cs)"
  by pat_completeness auto
termination
  by (relation "measure (\<lambda>(old, s). length s)") auto

text \<open>\<open>s[:-4]\<close>: everything but the last four characters; empty when \<open>s\<close> is shorter.\<close>

definition drop_last4 :: "string \<Rightarrow> string" where
  "drop_last4 s = take (length s - 4) s"

text \<open>
  \<open>s.strip()\<close> removes the white space at both ends. Characters are bytes here, so the
  white space is ASCII's: tab, line feed, vertical tab, form feed, carriage return, the
  four separators \<open>0x1C\<close> to \<open>0x1F\<close>, and the blank.
\<close>

definition is_space :: "char \<Rightarrow> bool" where
  "is_space c = (c \<in> set [CHR 0x09, CHR 0x0A, CHR 0x0B, CHR 0x0C, CHR 0x0D,
                            CHR 0x1C, CHR 0x1D, CHR 0x1E, CHR 0x1F, CHR 0x20])"

definition str_strip :: "string \<Rightarrow> string" where
  "str_strip s = rev (dropWhile is_space (rev (dropWhile is_space s)))"

section \<open>Tables\<close>

text \<open>
  \<open>pd.read_csv(..., dtype=str, keep_default_na=False, na_filter=False)\<close> yields a table
  whose cells are all text: a list of named columns, in file order.
\<close>

type_synonym source_table = "(string \<times> string list) list"

text \<open>
  The table schema is the dictionary that \<open>get_table_schema\<close> builds: column name to
  declared type, in insertion order.
\<close>

type_synonym table_schema = "(string \<times> string) list"

record timestamp =
  year :: int
  month :: nat
  day :: nat
  hour :: nat
  minute :: nat
  second :: nat
  nanosecond :: nat

text \<open>
  A column of the working table \<open>df_filtered\<close> holds text, integers (pandas \<open>Int64\<close>),
  numbers with \<open>NaN\<close> as \<^term>\<open>None\<close>, or timestamps with \<open>NaT\<close> as \<^term>\<open>None\<close>.
\<close>

datatype 'n column =
    StrCol "string list"
  | IntCol "int list"
  | NumCol "'n option list"
  | TSCol "timestamp option list"

type_synonym 'n dataframe = "(string \<times> 'n column) list"

definition columns :: "(string \<times> 'c) list \<Rightarrow> string list" where
  "columns df = map fst df"

text \<open>\<open>df[name] = col\<close>: overwrite the column where it stands, or append a new one.\<close>

fun set_column :: "(string \<times> 'c) list \<Rightarrow> string \<Rightarrow> 'c \<Rightarrow> (string \<times> 'c) list" where
  "set_column [] name col = [(name, col)]"
| "set_column ((k, v) # df) name col =
     (if k = name then (k, col) # df else (k, v) # set_column df name col)"

datatype level = INFO | WARNING | ERROR

datatype message =
    Starting string
  | EnvNotSet
  | Connected
  | ConnectionFailed
  | ConnectionHint nat
  | OriginalError
  | FetchingSchema string string
  | TableNotFound string string
  | SchemaFetchFailed string string
  | Halting string string
  | ReadingCsv string
  | ReadRows nat
  | Discarding string string "string list"
  | Deriving string string
  | CouldNotCoerce string string
  | Uploading nat string string
  | UploadCompleted
  | UploadError
  | RolledBack
  | FileNotFound string
  | Unexpected

type_synonym log = "(level \<times> message) list"

section \<open>Column matching\<close>

definition discarded_columns :: "string list \<Rightarrow> string list \<Rightarrow> string list" where
  "discarded_columns csv_columns db_columns = filter (\<lambda>col. col \<notin> set db_columns) csv_columns"

definition final_columns :: "string list \<Rightarrow> string list \<Rightarrow> string list" where
  "final_columns csv_columns db_columns = filter (\<lambda>col. col \<in> set db_columns) csv_columns"

text \<open>
  \<open>df[name]\<close> on the source table. Every name the program looks up is a name of
  \<open>df\<close> (a member of \<open>final_columns\<close>, or a \<open>source_col\<close> tested with \<open>in df.columns\<close>); the
  empty column stands for the \<open>KeyError\<close> that is never reached.
\<close>

definition get_column :: "source_table \<Rightarrow> string \<Rightarrow> string list" where
  "get_column df name = (case map_of df name of Some xs \<Rightarrow> xs | None \<Rightarrow> [])"

text \<open>\<open>df[final_columns].copy()\<close>: the selected columns, in the order of the selection.\<close>

definition select_columns :: "source_table \<Rightarrow> string list \<Rightarrow> source_table" where
  "select_columns df names = map (\<lambda>name. (name, get_column df name)) names"

section \<open>Normalising textual blanks\<close>

definition text_type_markers :: "string list" where
  "text_type_markers =
     [''char'', ''nchar'', ''varchar'', ''nvarchar'', ''text'', ''ntext'', ''xml'',
      ''uniqueidentifier'']"

definition is_text_type :: "string \<Rightarrow> bool" where
  "is_text_type dtype = list_ex (\<lambda>t. str_in t dtype) text_type_markers"

text \<open>\<open>Series.replace({'NULL': '', 'null': '', 'NaN': '', 'nan': ''})\<close> replaces whole values.\<close>

definition blank_placeholders :: "string \<Rightarrow> string" where
  "blank_placeholders s = (if s \<in> set [''NULL'', ''null'', ''NaN'', ''nan''] then [] else s)"

text \<open>\<open>df.loc[:, col] = f(df[col])\<close>: the column named \<open>col\<close> is rewritten where it stands.\<close>

fun map_column :: "(string \<times> 'c) list \<Rightarrow> string \<Rightarrow> ('c \<Rightarrow> 'c) \<Rightarrow> (string \<times> 'c) list" where
  "map_column [] name f = []"
| "map_column ((k, v) # df) name f =
     (if k = name then (k, f v) # df else (k, v) # map_column df name f)"

fun normalize_text :: "table_schema \<Rightarrow> source_table \<Rightarrow> source_table" where
  "normalize_text [] df_filtered = df_filtered"
| "normalize_text ((col, dtype) # rest) df_filtered =
     normalize_text rest
       (if col \<in> set (columns df_filtered) \<and> is_text_type dtype
        then map_column df_filtered col (map (blank_placeholders \<circ> str_strip))
        else df_filtered)"

section \<open>The pandas functions the program calls\<close>

text \<open>
  The parsers of pandas are not part of this program. They are taken as parameters,
  collected in one record:
  \<^item> \<open>to_numeric ctx s\<close>: the number \<open>pd.to_numeric(..., errors='coerce')\<close> reads from the
    text \<open>s\<close> standing in a column whose cells are \<open>ctx\<close>; \<^term>\<open>None\<close> is \<open>NaN\<close>;
  \<open>'n\<close> is the type of the numbers;
  \<^item> \<open>safe_int64 n\<close>: the value of \<open>n\<close> after \<open>.astype('Int64')\<close>, or \<^term>\<open>None\<close> where the
    cast raises (a number that is not integral);
  \<^item> \<open>to_datetime ctx s\<close>: the timestamp \<open>pd.to_datetime(..., errors='coerce')\<close> reads from
    the text \<open>s\<close> standing in a column whose cells are \<open>ctx\<close>; \<^term>\<open>None\<close> is \<open>NaT\<close>;
  \<^item> \<open>datetime_i8\<close>: the 64-bit integer that \<open>pd.to_numeric\<close> returns for a cell of a
    timestamp column;
  \<^item> \<open>int_to_datetime\<close>, \<open>num_to_datetime\<close>: \<open>pd.to_datetime\<close> on a cell of a column that
    already holds integers or numbers.
\<close>

record 'n pandas =
  to_numeric :: "string list \<Rightarrow> string \<Rightarrow> 'n option"
  safe_int64 :: "'n \<Rightarrow> int option"
  to_datetime :: "string list \<Rightarrow> string \<Rightarrow> timestamp option"
  datetime_i8 :: "timestamp option \<Rightarrow> int"
  int_to_datetime :: "int \<Rightarrow> timestamp option"
  num_to_datetime :: "'n \<Rightarrow> timestamp option"

section \<open>Derived columns for the \<open>_Parsed\<close> fields\<close>

text \<open>\<open>pd.Timestamp('1900-01-01 00:00:00')\<close>\<close>

definition default_timestamp :: timestamp where
  "default_timestamp =
     \<lparr>year = 1900, month = 1, day = 1, hour = 0, minute = 0, second = 0, nanosecond = 0\<rparr>"

definition fillna_timestamp :: "timestamp option \<Rightarrow> timestamp" where
  "fillna_timestamp v = (case v of None \<Rightarrow> default_timestamp | Some t \<Rightarrow> t)"

text \<open>
  \<open>pd.to_datetime(df[source_col].astype(str).str[:-4], errors='coerce')\<close> followed by
  \<open>.fillna(pd.Timestamp('1900-01-01 00:00:00'))\<close>.
\<close>

definition parsed_column :: "'n pandas \<Rightarrow> string list \<Rightarrow> 'n column" where
  "parsed_column P xs =
     (let sliced = map drop_last4 xs
      in TSCol (map (\<lambda>s. Some (fillna_timestamp (to_datetime P sliced s))) sliced))"

definition source_col_of :: "string \<Rightarrow> string" where
  "source_col_of db_col = str_remove ''_Parsed'' db_col"

fun derive_parsed ::
  "'n pandas \<Rightarrow> source_table \<Rightarrow> string list \<Rightarrow> 'n dataframe \<times> log \<Rightarrow> 'n dataframe \<times> log" where
  "derive_parsed P df [] (df_filtered, lg) = (df_filtered, lg)"
| "derive_parsed P df (db_col # rest) (df_filtered, lg) =
     (if endswith db_col ''_Parsed'' \<and> source_col_of db_col \<in> set (columns df)
      then derive_parsed P df rest
             (set_column df_filtered db_col (parsed_column P (get_column df (source_col_of db_col))),
              lg @ [(INFO, Deriving db_col (source_col_of db_col))])
      else derive_parsed P df rest (df_filtered, lg))"

section \<open>Data type coercion\<close>

text \<open>\<open>Series.replace(['', 'NULL', 'null', 'NaN', 'nan'], '0')\<close> replaces whole values.\<close>

definition zero_placeholders :: "string \<Rightarrow> string" where
  "zero_placeholders s =
     (if s \<in> set [[], ''NULL'', ''null'', ''NaN'', ''nan''] then ''0'' else s)"

text \<open>
  \<open>.fillna(0).astype('Int64')\<close> on the result of \<open>pd.to_numeric\<close>: \<open>NaN\<close> becomes 0; the
  cast raises as soon as one number is not integral, which is the value \<^term>\<open>None\<close>.
\<close>

definition fillna0_astype_Int64 :: "'n pandas \<Rightarrow> 'n option list \<Rightarrow> int list option" where
  "fillna0_astype_Int64 P ns =
     those (map (\<lambda>v. case v of None \<Rightarrow> Some 0 | Some n \<Rightarrow> safe_int64 P n) ns)"

text \<open>
  The integer branch. The result is the column and whether the branch ran to its end;
  when the cast raises, the first assignment (the placeholders replaced by \<open>'0'\<close>) has
  already been made and stays.
\<close>

fun coerce_int :: "'n pandas \<Rightarrow> 'n column \<Rightarrow> 'n column \<times> bool" where
  "coerce_int P (StrCol xs) =
     (let replaced = map zero_placeholders xs
      in case fillna0_astype_Int64 P (map (to_numeric P replaced) replaced) of
           Some is \<Rightarrow> (IntCol is, True)
         | None \<Rightarrow> (StrCol replaced, False))"
| "coerce_int P (IntCol is) = (IntCol is, True)"
| "coerce_int P (NumCol ns) =
     (case fillna0_astype_Int64 P ns of
        Some is \<Rightarrow> (IntCol is, True)
      | None \<Rightarrow> (NumCol ns, False))"
| "coerce_int P (TSCol ts) = (IntCol (map (datetime_i8 P) ts), True)"

text \<open>
  The decimal branch: \<open>.str.replace('$', '', regex=False).str.replace(',', '', regex=False)\<close>
  on a text column, then \<open>pd.to_numeric(..., errors='coerce')\<close>.
\<close>

definition strip_currency :: "string \<Rightarrow> string" where
  "strip_currency s = str_remove '','' (str_remove ''$'' s)"

fun coerce_float :: "'n pandas \<Rightarrow> 'n column \<Rightarrow> 'n column \<times> bool" where
  "coerce_float P (StrCol xs) =
     (let stripped = map strip_currency xs
      in (NumCol (map (to_numeric P stripped) stripped), True))"
| "coerce_float P (IntCol is) = (IntCol is, True)"
| "coerce_float P (NumCol ns) = (NumCol ns, True)"
| "coerce_float P (TSCol ts) = (IntCol (map (datetime_i8 P) ts), True)"

fun coerce_datetime :: "'n pandas \<Rightarrow> 'n column \<Rightarrow> 'n column \<times> bool" where
  "coerce_datetime P (StrCol xs) = (TSCol (map (to_datetime P xs) xs), True)"
| "coerce_datetime P (IntCol is) = (TSCol (map (int_to_datetime P) is), True)"
| "coerce_datetime P (NumCol ns) =
     (TSCol (map (\<lambda>v. case v of None \<Rightarrow> None | Some n \<Rightarrow> num_to_datetime P n) ns), True)"
| "coerce_datetime P (TSCol ts) = (TSCol ts, True)"

definition is_int_type :: "string \<Rightarrow> bool" where
  "is_int_type dtype = (str_in ''int'' dtype \<or> str_in ''bigint'' dtype)"

definition is_float_type :: "string \<Rightarrow> bool" where
  "is_float_type dtype =
     list_ex (\<lambda>t. str_in t dtype) [''float'', ''decimal'', ''numeric'', ''money'']"

definition is_date_type :: "string \<Rightarrow> bool" where
  "is_date_type dtype = (str_in ''date'' dtype \<or> str_in ''time'' dtype)"

text \<open>
  The body of the \<open>try\<close> of the coercion loop for one column. In the last branch
  \<open>fillna('')\<close> finds nothing to fill: a text column has no missing cell.
\<close>

definition coerce_column :: "'n pandas \<Rightarrow> string \<Rightarrow> string \<Rightarrow> 'n column \<Rightarrow> 'n column \<times> bool" where
  "coerce_column P col dtype c =
     (if is_int_type dtype then coerce_int P c
      else if is_float_type dtype then coerce_float P c
      else if is_date_type dtype then
        (if \<not> endswith col ''_Parsed'' then coerce_datetime P c else (c, True))
      else (c, True))"

fun coerce_types :: "'n pandas \<Rightarrow> table_schema \<Rightarrow> 'n dataframe \<times> log \<Rightarrow> 'n dataframe \<times> log" where
  "coerce_types P [] (df_filtered, lg) = (df_filtered, lg)"
| "coerce_types P ((col, dtype) # rest) (df_filtered, lg) =
     (case map_of df_filtered col of
        None \<Rightarrow> coerce_types P rest (df_filtered, lg)
      | Some c \<Rightarrow>
          (let (c', ok) = coerce_column P col dtype c
           in coerce_types P rest
                (set_column df_filtered col c',
                 lg @ (if ok then [] else [(WARNING, CouldNotCoerce col dtype)]))))"

section \<open>From the source table to the table that is uploaded\<close>

definition as_text_columns :: "source_table \<Rightarrow> 'n dataframe" where
  "as_text_columns df = map (\<lambda>(name, xs). (name, StrCol xs)) df"

definition reconcile :: "'n pandas \<Rightarrow> string \<Rightarrow> string \<Rightarrow> table_schema \<Rightarrow> source_table \<Rightarrow> 'n dataframe \<times> log" where
  "reconcile P db_schema table_name table_schema df =
     (let csv_columns = columns df;
          db_columns = map fst table_schema;
          discarded = discarded_columns csv_columns db_columns;
          lg = (if discarded \<noteq> []
                then [(WARNING, Discarding db_schema table_name discarded)] else []);
          df_filtered = select_columns df (final_columns csv_columns db_columns);
          df_filtered = normalize_text table_schema df_filtered
      in derive_parsed P df db_columns (as_text_columns df_filtered, lg))"

definition process :: "'n pandas \<Rightarrow> string \<Rightarrow> string \<Rightarrow> table_schema \<Rightarrow> source_table \<Rightarrow> 'n dataframe \<times> log" where
  "process P db_schema table_name table_schema df =
     coerce_types P table_schema (reconcile P db_schema table_name table_schema df)"


text \<open>
  Whether \<open>.astype('Int64')\<close> goes through on a text column: every text that reads as a
  number reads as an integral one.
\<close>

definition castable :: "'n pandas \<Rightarrow> string list \<Rightarrow> bool" where
  "castable P ctx =
     list_all (\<lambda>s. case to_numeric P ctx s of None \<Rightarrow> True | Some n \<Rightarrow> safe_int64 P n \<noteq> None) ctx"

text \<open>
  The stripping of the decimal branch as the specification words it, for comparison with
  \<^term>\<open>strip_currency\<close>: the leading currency symbol and the thousands separators go.
\<close>

definition spec_strip_currency :: "string \<Rightarrow> string" where
  "spec_strip_currency s =
     str_remove '','' (case s of [] \<Rightarrow> [] | c # cs \<Rightarrow> if c = CHR ''$'' then cs else s)"

section \<open>A reference instance of the pandas functions\<close>

text \<open>
  The examples need concrete parsers. This instance reads plain decimal literals
  (an optional minus sign, digits, optionally a point and more digits) and dates written
  \<open>YYYY-MM-DD\<close>, as pandas reads them, and rejects every other text; pandas accepts
  more (exponents, surrounding blanks, many date formats), so the instance is used only
  on texts of these two shapes and on texts no parser accepts. Numbers are rationals.
\<close>

definition digit_of :: "char \<Rightarrow> nat option" where
  "digit_of c =
     (let k = (of_char c :: nat) in if 48 \<le> k \<and> k \<le> 57 then Some (k - 48) else None)"

fun digits_val :: "nat \<Rightarrow> string \<Rightarrow> nat option" where
  "digits_val acc [] = Some acc"
| "digits_val acc (c # cs) =
     (case digit_of c of None \<Rightarrow> None | Some d \<Rightarrow> digits_val (10 * acc + d) cs)"

definition parse_nat :: "string \<Rightarrow> nat option" where
  "parse_nat s = (if s = [] then None else digits_val 0 s)"

definition parse_unsigned :: "string \<Rightarrow> rat option" where
  "parse_unsigned s =
     (let whole = takeWhile (\<lambda>c. c \<noteq> CHR ''.'') s;
          rest = dropWhile (\<lambda>c. c \<noteq> CHR ''.'') s
      in case parse_nat whole of
           None \<Rightarrow> None
         | Some i \<Rightarrow>
             (if rest = [] then Some (of_nat i)
              else case parse_nat (tl rest) of
                     None \<Rightarrow> None
                   | Some f \<Rightarrow> Some (of_nat i + of_nat f / 10 ^ length (tl rest))))"

definition ref_to_numeric :: "string list \<Rightarrow> string \<Rightarrow> rat option" where
  "ref_to_numeric ctx s =
     (case s of
        [] \<Rightarrow> None
      | c # cs \<Rightarrow> if c = CHR ''-'' then map_option uminus (parse_unsigned cs)
                  else parse_unsigned s)"

definition ref_safe_int64 :: "rat \<Rightarrow> int option" where
  "ref_safe_int64 r = (if of_int \<lfloor>r\<rfloor> = r then Some \<lfloor>r\<rfloor> else None)"

definition is_leap :: "int \<Rightarrow> bool" where
  "is_leap y = (y mod 4 = 0 \<and> (y mod 100 \<noteq> 0 \<or> y mod 400 = 0))"

definition days_in_month :: "int \<Rightarrow> nat \<Rightarrow> nat" where
  "days_in_month y m =
     (if m = 2 then (if is_leap y then 29 else 28)
      else if m \<in> set [4, 6, 9, 11] then 30 else 31)"

definition ref_to_datetime :: "string list \<Rightarrow> string \<Rightarrow> timestamp option" where
  "ref_to_datetime ctx s =
     (if length s = 10 \<and> s ! 4 = CHR ''-'' \<and> s ! 7 = CHR ''-'' then
        (case (parse_nat (take 4 s), parse_nat (take 2 (drop 5 s)), parse_nat (drop 8 s)) of
           (Some y, Some m, Some d) \<Rightarrow>
             (if 1 \<le> m \<and> m \<le> 12 \<and> 1 \<le> d \<and> d \<le> days_in_month (int y) m
              then Some \<lparr>year = int y, month = m, day = d, hour = 0, minute = 0,
                          second = 0, nanosecond = 0\<rparr>
              else None)
         | _ \<Rightarrow> None)
      else None)"

text \<open>Days between 1970-01-01 and a civil date, and back.\<close>

definition days_from_civil :: "int \<Rightarrow> int \<Rightarrow> int \<Rightarrow> int" where
  "days_from_civil y m d =
     (let y' = (if m \<le> 2 then y - 1 else y);
          era = y' div 400;
          yoe = y' - era * 400;
          doy = (153 * (if m > 2 then m - 3 else m + 9) + 2) div 5 + d - 1;
          doe = yoe * 365 + yoe div 4 - yoe div 100 + doy
      in era * 146097 + doe - 719468)"

definition civil_from_days :: "int \<Rightarrow> int \<times> int \<times> int" where
  "civil_from_days z =
     (let z' = z + 719468;
          era = z' div 146097;
          doe = z' - era * 146097;
          yoe = (doe - doe div 1460 + doe div 36524 - doe div 146096) div 365;
          doy = doe - (365 * yoe + yoe div 4 - yoe div 100);
          mp = (5 * doy + 2) div 153;
          d = doy - (153 * mp + 2) div 5 + 1;
          m = (if mp < 10 then mp + 3 else mp - 9);
          y = yoe + era * 400
      in (if m \<le> 2 then y + 1 else y, m, d))"

text \<open>A timestamp as nanoseconds since 1970-01-01; \<open>NaT\<close> is the least 64-bit integer.\<close>

definition ref_datetime_i8 :: "timestamp option \<Rightarrow> int" where
  "ref_datetime_i8 v =
     (case v of
        None \<Rightarrow> - (2 ^ 63)
      | Some t \<Rightarrow>
          (((days_from_civil (year t) (int (month t)) (int (day t)) * 24 + int (hour t)) * 60
              + int (minute t)) * 60 + int (second t)) * 1000000000 + int (nanosecond t))"

definition ref_int_to_datetime :: "int \<Rightarrow> timestamp option" where
  "ref_int_to_datetime i =
     (if i = - (2 ^ 63) then None
      else
        (let secs = i div 1000000000;
             days = secs div 86400;
             sod = secs mod 86400;
             (y, m, d) = civil_from_days days
         in Some \<lparr>year = y, month = nat m, day = nat d, hour = nat (sod div 3600),
                    minute = nat (sod mod 3600 div 60), second = nat (sod mod 60),
                    nanosecond = nat (i mod 1000000000)\<rparr>))"

definition ref_num_to_datetime :: "rat \<Rightarrow> timestamp option" where
  "ref_num_to_datetime r = ref_int_to_datetime (if r < 0 then \<lceil>r\<rceil> else \<lfloor>r\<rfloor>)"

definition ref_pandas :: "rat pandas" where
  "ref_pandas =
     \<lparr>to_numeric = ref_to_numeric, safe_int64 = ref_safe_int64,
      to_datetime = ref_to_datetime, datetime_i8 = ref_datetime_i8,
      int_to_datetime = ref_int_to_datetime, num_to_datetime = ref_num_to_datetime\<rparr>"

section \<open>The run: environment, database and file as explicit state\<close>

text \<open>
  The exceptions the handlers of the program tell apart: \<open>SQLAlchemyError\<close>,
  \<open>FileNotFoundError\<close>, the \<open>ValueError\<close> that \<open>get_db_engine\<close> raises itself, and any
  other subclass of \<open>Exception\<close>.
\<close>

datatype exn = SQLAlchemyError | FileNotFoundError | ValueError | OtherException

datatype 'n cell = Text string | Integer int | Number 'n | Time timestamp | Missing

type_synonym 'n row = "(string \<times> 'n cell) list"

datatype 'n event = CsvRead string | Begin | InsertChunk "'n row list" | Commit | Rollback

text \<open>
  What the run meets outside the program:
  \<^item> \<open>environ\<close>: the environment of the process; \<open>dotenv\<close>: the variables of the \<open>.env\<close> file,
    which \<open>load_dotenv()\<close> adds where the environment has none;
  \<^item> \<open>connect\<close>: what \<open>create_engine\<close> and the test connection raise, if anything;
  \<^item> \<open>information_schema table schema\<close>: the rows of the column query, or what it raises;
  \<^item> \<open>read_csv path\<close>: the table read from the file, or what reading raises;
  \<^item> \<open>begin_transaction\<close>, \<open>execute_insert chunk\<close>, \<open>commit\<close>: what the database raises,
    if anything, when the transaction is opened, on the insert of one chunk of rows, and
    on commit.
\<close>

record 'n world =
  environ :: "string \<Rightarrow> string option"
  dotenv :: "string \<Rightarrow> string option"
  connect :: "exn option"
  information_schema :: "string \<Rightarrow> string \<Rightarrow> exn + (string \<times> string) list"
  read_csv :: "string \<Rightarrow> exn + source_table"
  begin_transaction :: "exn option"
  execute_insert :: "'n row list \<Rightarrow> exn option"
  commit :: "exn option"

text \<open>
  The state a run changes: the log, the committed rows of the destination table, and the
  trace of what was done to the file and the database.
\<close>

record 'n state =
  logged :: log
  table :: "'n row list"
  trace :: "'n event list"

definition logging :: "level \<Rightarrow> message \<Rightarrow> 'n state \<Rightarrow> 'n state" where
  "logging lv m st = st\<lparr>logged := logged st @ [(lv, m)]\<rparr>"

definition record_event :: "'n event \<Rightarrow> 'n state \<Rightarrow> 'n state" where
  "record_event ev st = st\<lparr>trace := trace st @ [ev]\<rparr>"

text \<open>\<open>os.getenv\<close> after \<open>load_dotenv()\<close>: the file does not override the environment.\<close>

definition getenv_loaded :: "'n world \<Rightarrow> string \<Rightarrow> string option" where
  "getenv_loaded W name = (case environ W name of Some v \<Rightarrow> Some v | None \<Rightarrow> dotenv W name)"

text \<open>The truth value of \<open>os.getenv(...)\<close>: \<open>None\<close> and the empty string are false.\<close>

definition truthy :: "string option \<Rightarrow> bool" where
  "truthy v = (case v of None \<Rightarrow> False | Some s \<Rightarrow> s \<noteq> [])"

definition get_db_engine :: "'n world \<Rightarrow> 'n state \<Rightarrow> (exn + unit) \<times> 'n state" where
  "get_db_engine W st =
     (if \<not> (truthy (getenv_loaded W ''DB_SERVER'') \<and> truthy (getenv_loaded W ''DB_DATABASE'')
             \<and> truthy (getenv_loaded W ''DB_USER''))
      then (Inl ValueError, logging ERROR EnvNotSet st)
      else case connect W of
             None \<Rightarrow> (Inr (), logging INFO Connected st)
           | Some SQLAlchemyError \<Rightarrow>
               (Inl SQLAlchemyError,
                logging ERROR OriginalError
                  (logging ERROR (ConnectionHint 3)
                    (logging ERROR (ConnectionHint 2)
                      (logging ERROR (ConnectionHint 1)
                        (logging ERROR (ConnectionHint 0)
                          (logging ERROR ConnectionFailed st))))))
           | Some e \<Rightarrow> (Inl e, st))"

text \<open>
  \<open>schema[row[0]] = row[1]\<close> for every row of the query: a later row of the same column
  name overwrites the type and keeps the place.
\<close>

definition build_schema :: "(string \<times> string) list \<Rightarrow> table_schema" where
  "build_schema rows = foldl (\<lambda>schema (name, dtype). set_column schema name dtype) [] rows"

text \<open>
  \<open>get_table_schema\<close> returns the dictionary (empty when the table has no columns), or
  \<open>None\<close> after an \<open>SQLAlchemyError\<close>; any other exception leaves the function.
\<close>

definition get_table_schema ::
  "'n world \<Rightarrow> string \<Rightarrow> string \<Rightarrow> 'n state \<Rightarrow> (exn + table_schema option) \<times> 'n state" where
  "get_table_schema W table_name schema_name st =
     (let st1 = logging INFO (FetchingSchema schema_name table_name) st
      in case information_schema W table_name schema_name of
           Inr rows \<Rightarrow>
             (let schema = build_schema rows
              in (Inr (Some schema),
                  if schema = [] then logging WARNING (TableNotFound schema_name table_name) st1
                  else st1))
         | Inl SQLAlchemyError \<Rightarrow>
             (Inr None, logging ERROR (SchemaFetchFailed schema_name table_name) st1)
         | Inl e \<Rightarrow> (Inl e, st1))"

text \<open>\<open>len(df)\<close>: the number of rows, which is the length of every column.\<close>

definition len_df :: "source_table \<Rightarrow> nat" where
  "len_df df = (case df of [] \<Rightarrow> 0 | (name, xs) # rest \<Rightarrow> length xs)"

text \<open>The rows of the working table as \<open>to_sql\<close> writes them; \<open>NaN\<close> and \<open>NaT\<close> are missing.\<close>

fun cells :: "'n column \<Rightarrow> 'n cell list" where
  "cells (StrCol xs) = map Text xs"
| "cells (IntCol is) = map Integer is"
| "cells (NumCol ns) = map (\<lambda>v. case v of None \<Rightarrow> Missing | Some n \<Rightarrow> Number n) ns"
| "cells (TSCol ts) = map (\<lambda>v. case v of None \<Rightarrow> Missing | Some t \<Rightarrow> Time t) ts"

text \<open>Every column of a table has as many cells as the table has rows; the guard is never false.\<close>

definition cell_at :: "'n cell list \<Rightarrow> nat \<Rightarrow> 'n cell" where
  "cell_at cs i = (if i < length cs then cs ! i else Missing)"

definition rows_of :: "nat \<Rightarrow> 'n dataframe \<Rightarrow> 'n row list" where
  "rows_of n df = map (\<lambda>i. map (\<lambda>(name, c). (name, cell_at (cells c) i)) df) [0..<n]"

text \<open>\<open>chunksize=5000\<close>: the rows are inserted in runs of at most that many.\<close>

function chunked :: "nat \<Rightarrow> 'a list \<Rightarrow> 'a list list" where
  "chunked n xs = (if n = 0 \<or> xs = [] then [] else take n xs # chunked n (drop n xs))"
  by pat_completeness auto
termination
  by (relation "measure (\<lambda>(n, xs). length xs)") auto

text \<open>
  The inserts of \<open>to_sql\<close>, one chunk after the other inside the open transaction; the
  first exception ends them. The rows inserted so far are pending, not committed.
\<close>

fun insert_chunks ::
  "'n world \<Rightarrow> 'n row list list \<Rightarrow> 'n row list \<times> 'n state \<Rightarrow> (exn + 'n row list) \<times> 'n state" where
  "insert_chunks W [] (pending, st) = (Inr pending, st)"
| "insert_chunks W (chunk # rest) (pending, st) =
     (case execute_insert W chunk of
        Some e \<Rightarrow> (Inl e, record_event (InsertChunk chunk) st)
      | None \<Rightarrow> insert_chunks W rest (pending @ chunk, record_event (InsertChunk chunk) st))"

text \<open>
  \<open>with engine.begin() as connection: df_filtered.to_sql(...); logging.info(...)\<close>. The
  context manager commits when the block ends and rolls back when it raises; only a
  commit changes the committed rows of the table.
\<close>

definition to_sql_in_transaction ::
  "'n world \<Rightarrow> 'n row list \<Rightarrow> 'n state \<Rightarrow> (exn + unit) \<times> 'n state" where
  "to_sql_in_transaction W rows st =
     (case begin_transaction W of
        Some e \<Rightarrow> (Inl e, st)
      | None \<Rightarrow>
          (case insert_chunks W (chunked 5000 rows) ([], record_event Begin st) of
             (Inl e, st1) \<Rightarrow> (Inl e, record_event Rollback st1)
           | (Inr pending, st1) \<Rightarrow>
               (let st2 = logging INFO UploadCompleted st1
                in case commit W of
                     Some e \<Rightarrow> (Inl e, record_event Rollback st2)
                   | None \<Rightarrow>
                       (Inr (), record_event Commit (st2\<lparr>table := table st2 @ pending\<rparr>)))))"

text \<open>The upload with its own handler: \<open>except SQLAlchemyError\<close> logs and goes on.\<close>

definition upload_rows ::
  "'n world \<Rightarrow> string \<Rightarrow> string \<Rightarrow> 'n row list \<Rightarrow> 'n state \<Rightarrow> (exn + unit) \<times> 'n state" where
  "upload_rows W db_schema table_name rows st =
     (case to_sql_in_transaction W rows
             (logging INFO (Uploading (length rows) db_schema table_name) st) of
        (Inl SQLAlchemyError, st1) \<Rightarrow>
          (Inr (), logging ERROR RolledBack (logging ERROR UploadError st1))
      | (Inl e, st1) \<Rightarrow> (Inl e, st1)
      | (Inr u, st1) \<Rightarrow> (Inr u, st1))"

text \<open>The body of the outer \<open>try\<close> of \<open>upload_data\<close>.\<close>

definition upload_data_body ::
  "'n pandas \<Rightarrow> 'n world \<Rightarrow> string \<Rightarrow> string \<Rightarrow> 'n state \<Rightarrow> (exn + unit) \<times> 'n state" where
  "upload_data_body P W filepath table_name st =
     (let db_schema = (case environ W ''DB_SCHEMA'' of None \<Rightarrow> ''tcn'' | Some s \<Rightarrow> s)
      in case get_db_engine W st of
           (Inl e, st1) \<Rightarrow> (Inl e, st1)
         | (Inr engine, st1) \<Rightarrow>
             (case get_table_schema W table_name db_schema st1 of
                (Inl e, st2) \<Rightarrow> (Inl e, st2)
              | (Inr None, st2) \<Rightarrow> (Inr (), logging ERROR (Halting db_schema table_name) st2)
              | (Inr (Some table_schema), st2) \<Rightarrow>
                  (if table_schema = []
                   then (Inr (), logging ERROR (Halting db_schema table_name) st2)
                   else
                     (let st3 = record_event (CsvRead filepath)
                                  (logging INFO (ReadingCsv filepath) st2)
                      in case read_csv W filepath of
                           Inl e \<Rightarrow> (Inl e, st3)
                         | Inr df \<Rightarrow>
                             (let st4 = logging INFO (ReadRows (len_df df)) st3;
                                  (df_filtered, lg) = process P db_schema table_name table_schema df;
                                  st5 = st4\<lparr>logged := logged st4 @ lg\<rparr>
                              in upload_rows W db_schema table_name
                                   (rows_of (len_df df) df_filtered) st5)))))"

text \<open>
  \<open>upload_data\<close>: the body under \<open>except FileNotFoundError\<close> and \<open>except Exception\<close>. The
  function has no \<open>return\<close> value; \<^term>\<open>Inl e\<close> would be an exception leaving it.
\<close>

definition upload_data ::
  "'n pandas \<Rightarrow> 'n world \<Rightarrow> string \<Rightarrow> string \<Rightarrow> 'n state \<Rightarrow> (exn + unit) \<times> 'n state" where
  "upload_data P W filepath table_name st =
     (case upload_data_body P W filepath table_name (logging INFO (Starting filepath) st) of
        (Inl FileNotFoundError, st1) \<Rightarrow> (Inr (), logging ERROR (FileNotFound filepath) st1)
      | (Inl e, st1) \<Rightarrow> (Inr (), logging ERROR Unexpected st1)
      | (Inr u, st1) \<Rightarrow> (Inr u, st1))"

section \<open>Example inputs\<close>

definition ex_schema :: table_schema where
  "ex_schema =
     [(''ID'', ''int''), (''Amount'', ''money''), (''Name'', ''varchar''),
      (''EventDateTZ'', ''varchar''), (''EventDateTZ_Parsed'', ''datetime'')]"

definition ex_df :: source_table where
  "ex_df =
     [(''ID'', ['''', ''7'', ''abc'']),
      (''Amount'', [''$1,234.50'', ''x'', ''12'']),
      (''Name'', ['' a '', ''NULL'', ''b'']),
      (''EventDateTZ'', [''2024-01-01 EST'', '''', ''junk'']),
      (''Extra'', [''p'', ''q'', ''r''])]"



text \<open>A parsed column whose name holds the marker twice.\<close>

definition ex_schema_twice :: table_schema where
  "ex_schema_twice = [(''X_Parsed_Y_Parsed'', ''datetime'')]"

definition ex_df_twice :: source_table where
  "ex_df_twice = [(''X_Parsed_Y'', [''2024-01-01 EST'']), (''X_Y'', [''2025-12-31 UTC''])]"

definition ex_df_twice_only_suffix :: source_table where
  "ex_df_twice_only_suffix = [(''X_Parsed_Y'', [''2024-01-01 EST''])]"

text \<open>An integer column with a value that is a number and not an integer.\<close>

definition ex_schema_int :: table_schema where
  "ex_schema_int = [(''ID'', ''int'')]"

definition ex_df_fraction :: source_table where
  "ex_df_fraction = [(''ID'', [''1.5'', ''abc'', ''''])]"

text \<open>
  A run with the credentials in the \<open>.env\<close> file, a database that knows the table
  \<open>tcn.recordDump\<close>, and one source file.
\<close>

definition ex_world :: "rat world" where
  "ex_world =
     \<lparr>environ = Map.empty,
      dotenv = [''DB_SERVER'' \<mapsto> ''10.0.0.5'', ''DB_DATABASE'' \<mapsto> ''reports'',
                ''DB_USER'' \<mapsto> ''loader''],
      connect = None,
      information_schema =
        (\<lambda>table_name schema_name.
           if table_name = ''recordDump'' \<and> schema_name = ''tcn'' then Inr ex_schema else Inr []),
      read_csv = (\<lambda>path. if path = ''merged.csv'' then Inr ex_df else Inl FileNotFoundError),
      begin_transaction = None,
      execute_insert = (\<lambda>chunk. None),
      commit = None\<rparr>"

definition ex_state :: "rat state" where
  "ex_state = \<lparr>logged = [], table = [], trace = []\<rparr>"

text \<open>The same run against a database that refuses the insert.\<close>

definition ex_world_insert_fails :: "rat world" where
  "ex_world_insert_fails = ex_world\<lparr>execute_insert := (\<lambda>chunk. Some SQLAlchemyError)\<rparr>"

text \<open>The same run against a server that cannot be reached.\<close>

definition ex_world_unreachable :: "rat world" where
  "ex_world_unreachable = ex_world\<lparr>connect := Some SQLAlchemyError\<rparr>"

section \<open>Facts about the table operations\<close>

lemma columns_set_column_list:
  "columns (set_column df n c) = (if n \<in> set (columns df) then columns df else columns df @ [n])"
  by (induction df) (force simp: columns_def)+

lemma columns_set_column: "set (columns (set_column df n c)) = insert n (set (columns df))"
  by (auto simp: columns_set_column_list)

lemma map_of_set_column: "map_of (set_column df n c) k = (if k = n then Some c else map_of df k)"
  by (induction df) auto

lemma distinct_set_column: "distinct (columns df) \<Longrightarrow> distinct (columns (set_column df n c))"
  by (simp add: columns_set_column_list)

lemma columns_map_column: "columns (map_column df n f) = columns df"
  by (induction df) (auto simp: columns_def)

lemma columns_normalize_text: "columns (normalize_text sch df) = columns df"
  by (induction sch arbitrary: df) (auto simp: columns_map_column)

lemma columns_select: "columns (select_columns df names) = names"
  by (simp add: select_columns_def columns_def comp_def)

lemma columns_as_text: "columns (as_text_columns df) = columns df"
  by (simp add: as_text_columns_def columns_def comp_def case_prod_beta)

lemma derive_parsed_columns:
  "set (columns (fst (derive_parsed P df dbs st))) =
     set (columns (fst st)) \<union> {c \<in> set dbs. endswith c ''_Parsed'' \<and> source_col_of c \<in> set (columns df)}"
  by (induction P df dbs st rule: derive_parsed.induct) (auto simp: columns_set_column)

lemma derive_parsed_map_of:
  "map_of (fst (derive_parsed P df dbs st)) k =
     (if k \<in> set dbs \<and> endswith k ''_Parsed'' \<and> source_col_of k \<in> set (columns df)
      then Some (parsed_column P (get_column df (source_col_of k)))
      else map_of (fst st) k)"
  by (induction P df dbs st rule: derive_parsed.induct) (auto simp: map_of_set_column)

lemma derive_parsed_log:
  "set (snd (derive_parsed P df dbs st)) =
     set (snd st) \<union> {(INFO, Deriving c (source_col_of c)) | c. c \<in> set dbs \<and> endswith c ''_Parsed'' \<and> source_col_of c \<in> set (columns df)}"
  by (induction P df dbs st rule: derive_parsed.induct) auto

lemma map_of_Some_columns: "map_of df k = Some c \<Longrightarrow> k \<in> set (columns df)"
  by (auto simp: columns_def dest: map_of_SomeD intro: rev_image_eqI)

lemma coerce_types_columns:
  "columns (fst (coerce_types P sch st)) = columns (fst st)"
  by (induction P sch st rule: coerce_types.induct)
     (auto simp: columns_set_column_list map_of_Some_columns split: option.splits prod.splits)


lemma coerce_types_log:
  "set (snd (coerce_types P sch st)) \<subseteq>
     set (snd st) \<union> {(WARNING, CouldNotCoerce c d) | c d. (c, d) \<in> set sch \<and> c \<in> set (columns (fst st))}"
proof (induction P sch st rule: coerce_types.induct)
  case (1 P df_filtered lg)
  then show ?case by simp
next
  case (2 P col dtype rest df_filtered lg)
  show ?case
  proof (cases "map_of df_filtered col")
    case None
    with "2.IH"(1) show ?thesis by auto
  next
    case (Some c)
    obtain c' ok where co: "coerce_column P col dtype c = (c', ok)"
      by (cases "coerce_column P col dtype c")
    have cols: "columns (set_column df_filtered col c') = columns df_filtered"
      using Some by (simp add: columns_set_column_list map_of_Some_columns)
    have "set (snd (coerce_types P rest (set_column df_filtered col c',
              lg @ (if ok then [] else [(WARNING, CouldNotCoerce col dtype)]))))
          \<subseteq> set (lg @ (if ok then [] else [(WARNING, CouldNotCoerce col dtype)])) \<union>
            {(WARNING, CouldNotCoerce c d) | c d. (c, d) \<in> set rest \<and> c \<in> set (columns df_filtered)}"
      using "2.IH"(2)[OF Some co[symmetric] refl] cols by simp
    moreover have "col \<in> set (columns df_filtered)"
      using Some by (rule map_of_Some_columns)
    ultimately show ?thesis using Some co by (auto split: if_splits)
  qed
qed









section \<open>Facts about removing a marker from a name\<close>

lemma str_remove_no_occurrence: "\<not> sublist old s \<Longrightarrow> str_remove old s = s"
  by (induction s) (auto simp: sublist_Cons_right)

lemma prefix_before_foreign: "prefix p (a @ u # r) \<Longrightarrow> u \<notin> set p \<Longrightarrow> prefix p a"
  by (auto simp: prefix_append prefix_Cons)

lemma str_remove_skip:
  "\<not> prefix old (c # cs) \<Longrightarrow> str_remove old (c # cs) = c # str_remove old cs"
  by simp

lemma str_remove_at_occurrence: "str_remove ''_Parsed'' (''_Parsed'' @ b) = str_remove ''_Parsed'' b"
  by simp

lemma str_remove_first_occurrence:
  "\<not> sublist ''_Parsed'' a \<Longrightarrow>
   str_remove ''_Parsed'' (a @ ''_Parsed'' @ b) = a @ str_remove ''_Parsed'' b"
proof (induction a)
  case Nil
  then show ?case by simp
next
  case (Cons c a)
  have no_sub: "\<not> sublist ''_Parsed'' a" and no_pre: "\<not> prefix ''_Parsed'' (c # a)"
    using Cons.prems by (auto simp: sublist_Cons_right)
  have np: "\<not> prefix ''_Parsed'' (c # a @ ''_Parsed'' @ b)"
  proof
    assume p: "prefix ''_Parsed'' (c # a @ ''_Parsed'' @ b)"
    then have c: "c = CHR ''_''" and q: "prefix ''Parsed'' (a @ CHR ''_'' # ''Parsed'' @ b)"
      by auto
    have "prefix ''Parsed'' a"
      by (rule prefix_before_foreign[OF q]) simp
    with c no_pre show False by simp
  qed
  show ?case
    using str_remove_skip[OF np] Cons.IH[OF no_sub] by (simp only: append_Cons)
qed

section \<open>Facts about the stages\<close>

lemma coerce_types_log_mono: "set (snd st) \<subseteq> set (snd (coerce_types P sch st))"
proof (induction P sch st rule: coerce_types.induct)
  case (1 P df_filtered lg)
  then show ?case by simp
next
  case (2 P col dtype rest df_filtered lg)
  show ?case
  proof (cases "map_of df_filtered col")
    case None
    with "2.IH"(1) show ?thesis by simp
  next
    case (Some c)
    obtain c' ok where co: "coerce_column P col dtype c = (c', ok)"
      by (cases "coerce_column P col dtype c")
    from "2.IH"(2)[OF Some co[symmetric] refl] Some co show ?thesis by auto
  qed
qed

lemma reconcile_columns:
  "set (columns (fst (reconcile P s t sch df))) =
     set (final_columns (columns df) (map fst sch)) \<union>
     {c \<in> set (map fst sch). endswith c ''_Parsed'' \<and> source_col_of c \<in> set (columns df)}"
  by (simp add: reconcile_def Let_def derive_parsed_columns columns_as_text
      columns_normalize_text columns_select)

lemma reconcile_log:
  "set (snd (reconcile P s t sch df)) =
     (if discarded_columns (columns df) (map fst sch) \<noteq> []
      then {(WARNING, Discarding s t (discarded_columns (columns df) (map fst sch)))} else {}) \<union>
     {(INFO, Deriving c (source_col_of c)) | c.
        c \<in> set (map fst sch) \<and> endswith c ''_Parsed'' \<and> source_col_of c \<in> set (columns df)}"
  by (simp add: reconcile_def Let_def derive_parsed_log)

lemma process_columns:
  "columns (fst (process P s t sch df)) = columns (fst (reconcile P s t sch df))"
  by (simp add: process_def coerce_types_columns)

lemma process_log_lower: "set (snd (reconcile P s t sch df)) \<subseteq> set (snd (process P s t sch df))"
  by (simp add: process_def coerce_types_log_mono)

lemma process_log_upper:
  "set (snd (process P s t sch df)) \<subseteq>
     set (snd (reconcile P s t sch df)) \<union> {(WARNING, CouldNotCoerce c d) | c d. (c, d) \<in> set sch}"
  using coerce_types_log[of P sch "reconcile P s t sch df"] by (auto simp: process_def)

section \<open>Discarded columns\<close>

text \<open>
  C4. A source column whose name (compared exactly) is not a column of the schema is not a
  column of the table that is uploaded, and the log has a warning that lists it among the
  discarded columns; the stages log no error, on any input.
\<close>

theorem discarded_column_absent_and_logged:
  assumes "c \<in> set (columns df)" and "c \<notin> set (map fst table_schema)"
  shows "c \<notin> set (columns (fst (process P db_schema table_name table_schema df)))
         \<and> (\<exists>cols. (WARNING, Discarding db_schema table_name cols)
                      \<in> set (snd (process P db_schema table_name table_schema df))
                    \<and> c \<in> set cols)
         \<and> ERROR \<notin> fst ` set (snd (process P db_schema table_name table_schema df))"
proof -
  let ?out = "process P db_schema table_name table_schema df"
  let ?disc = "discarded_columns (columns df) (map fst table_schema)"
  have absent: "c \<notin> set (columns (fst ?out))"
    using assms(2) by (auto simp: process_columns reconcile_columns final_columns_def)
  have mem: "c \<in> set ?disc"
    using assms by (simp add: discarded_columns_def)
  then have "?disc \<noteq> []" by auto
  then have "(WARNING, Discarding db_schema table_name ?disc)
               \<in> set (snd (reconcile P db_schema table_name table_schema df))"
    by (simp add: reconcile_log)
  then have warned: "(WARNING, Discarding db_schema table_name ?disc) \<in> set (snd ?out)"
    using process_log_lower by blast
  have "fst e \<noteq> ERROR" if "e \<in> set (snd ?out)" for e
    using that process_log_upper[of P db_schema table_name table_schema df]
    by (auto simp: reconcile_log split: if_splits)
  then have noerr: "ERROR \<notin> fst ` set (snd ?out)" by force
  from absent warned mem noerr show ?thesis by blast
qed

theorem discarded_column_absent_and_logged_witness:
  "''Extra'' \<in> set (columns ex_df) \<and> ''Extra'' \<notin> set (map fst ex_schema)
   \<and> ''Extra'' \<notin> set (columns (fst (process ref_pandas ''tcn'' ''recordDump'' ex_schema ex_df)))
   \<and> (\<exists>cols. (WARNING, Discarding ''tcn'' ''recordDump'' cols)
                \<in> set (snd (process ref_pandas ''tcn'' ''recordDump'' ex_schema ex_df))
              \<and> ''Extra'' \<in> set cols)
   \<and> ERROR \<notin> fst ` set (snd (process ref_pandas ''tcn'' ''recordDump'' ex_schema ex_df))"
proof -
  have a: "''Extra'' \<in> set (columns ex_df)" by (simp add: ex_df_def columns_def)
  have b: "''Extra'' \<notin> set (map fst ex_schema)" by (simp add: ex_schema_def)
  from discarded_column_absent_and_logged[OF a b] a b show ?thesis by blast
qed

section \<open>The \<open>_Parsed\<close> columns\<close>

lemma reconcile_parsed_map_of:
  assumes "db_col \<in> set (map fst sch)" and "endswith db_col ''_Parsed''"
    and "source_col_of db_col \<in> set (columns df)"
  shows "map_of (fst (reconcile P s t sch df)) db_col =
           Some (parsed_column P (get_column df (source_col_of db_col)))"
  using assms by (simp add: reconcile_def Let_def derive_parsed_map_of)

text \<open>
  C10. For a schema column that ends with \<open>_Parsed\<close>, the base name is the column name
  with every occurrence of \<open>_Parsed\<close> removed, scanning from the left: a name without
  the marker is left as it is, and a first occurrence is dropped and the scan goes on
  behind it. The derivation logs that base name and no other, and when the source file
  has a column of that name the parsed column is computed from it.
\<close>

theorem parsed_base_name_removes_every_marker:
  assumes "db_col \<in> set (map fst table_schema)" and "endswith db_col ''_Parsed''"
  shows "(\<forall>a b. db_col = a @ ''_Parsed'' @ b \<and> \<not> sublist ''_Parsed'' a
            \<longrightarrow> source_col_of db_col = a @ source_col_of b)
         \<and> (\<forall>s. \<not> sublist ''_Parsed'' s \<longrightarrow> source_col_of s = s)
         \<and> (\<forall>lv src. (lv, Deriving db_col src)
                \<in> set (snd (reconcile P db_schema table_name table_schema df))
              \<longrightarrow> src = source_col_of db_col \<and> src \<in> set (columns df))
         \<and> (source_col_of db_col \<in> set (columns df) \<longrightarrow>
              map_of (fst (reconcile P db_schema table_name table_schema df)) db_col =
                Some (parsed_column P (get_column df (source_col_of db_col))))"
proof -
  let ?rec = "reconcile P db_schema table_name table_schema df"
  have first: "source_col_of db_col = a @ source_col_of b"
    if "db_col = a @ ''_Parsed'' @ b \<and> \<not> sublist ''_Parsed'' a" for a b
    using that str_remove_first_occurrence[of a b] by (simp add: source_col_of_def)
  have none: "source_col_of s = s" if "\<not> sublist ''_Parsed'' s" for s
    using that by (simp add: source_col_of_def str_remove_no_occurrence)
  have logged: "src = source_col_of db_col \<and> src \<in> set (columns df)"
    if "(lv, Deriving db_col src) \<in> set (snd ?rec)" for lv src
    using that by (auto simp: reconcile_log split: if_splits)
  have derived: "map_of (fst ?rec) db_col =
      Some (parsed_column P (get_column df (source_col_of db_col)))"
    if "source_col_of db_col \<in> set (columns df)"
    using assms that by (rule reconcile_parsed_map_of)
  from first none logged derived show ?thesis by blast
qed

theorem parsed_base_name_removes_every_marker_witness:
  "''X_Parsed_Y_Parsed'' \<in> set (map fst ex_schema_twice)
   \<and> endswith ''X_Parsed_Y_Parsed'' ''_Parsed''
   \<and> source_col_of ''X_Parsed_Y_Parsed'' = ''X_Y''
   \<and> source_col_of ''X_Parsed_Y_Parsed'' \<noteq> ''X_Parsed_Y''
   \<and> map_of (fst (reconcile ref_pandas ''tcn'' ''recordDump'' ex_schema_twice ex_df_twice))
        ''X_Parsed_Y_Parsed'' =
      Some (TSCol [Some \<lparr>year = 2025, month = 12, day = 31, hour = 0, minute = 0,
                          second = 0, nanosecond = 0\<rparr>])"
proof -
  have a: "''X_Parsed_Y_Parsed'' \<in> set (map fst ex_schema_twice)"
    by (simp add: ex_schema_twice_def)
  have b: "endswith ''X_Parsed_Y_Parsed'' ''_Parsed''"
    by (simp add: endswith_def suffix_to_prefix)
  have c: "source_col_of ''X_Parsed_Y_Parsed'' = ''X_Y''"
    by (simp add: source_col_of_def)
  have d: "source_col_of ''X_Parsed_Y_Parsed'' \<in> set (columns ex_df_twice)"
    by (simp add: c ex_df_twice_def columns_def)
  have e: "parsed_column ref_pandas (get_column ex_df_twice ''X_Y'') =
             TSCol [Some \<lparr>year = 2025, month = 12, day = 31, hour = 0, minute = 0,
                            second = 0, nanosecond = 0\<rparr>]"
    by code_simp
  from parsed_base_name_removes_every_marker[OF a b, of ref_pandas "''tcn''" "''recordDump''" ex_df_twice]
    d have "map_of (fst (reconcile ref_pandas ''tcn'' ''recordDump'' ex_schema_twice ex_df_twice))
        ''X_Parsed_Y_Parsed'' =
      Some (parsed_column ref_pandas (get_column ex_df_twice (source_col_of ''X_Parsed_Y_Parsed'')))"
    by blast
  with a b c e show ?thesis by simp
qed




section \<open>The coercion of one column\<close>

lemma those_map_Some:
  "list_all (\<lambda>x. f x \<noteq> None) xs \<Longrightarrow> those (map f xs) = Some (map (\<lambda>x. the (f x)) xs)"
  by (induction xs) auto

lemma those_map_None:
  "\<not> list_all (\<lambda>x. f x \<noteq> None) xs \<Longrightarrow> those (map f xs) = None"
  by (induction xs) (auto split: option.splits)

lemma fillna0_astype_Int64_castable:
  assumes "castable P ctx"
  shows "fillna0_astype_Int64 P (map (to_numeric P ctx) ctx) =
           Some (map (\<lambda>s. case to_numeric P ctx s of None \<Rightarrow> 0 | Some n \<Rightarrow> the (safe_int64 P n)) ctx)"
proof -
  let ?f = "\<lambda>s. case to_numeric P ctx s of None \<Rightarrow> Some 0 | Some n \<Rightarrow> safe_int64 P n"
  have "list_all (\<lambda>s. ?f s \<noteq> None) ctx"
    using assms by (auto simp: castable_def list_all_iff split: option.splits)
  then have "those (map ?f ctx) = Some (map (\<lambda>s. the (?f s)) ctx)"
    by (rule those_map_Some)
  moreover have "map (\<lambda>s. the (?f s)) ctx =
      map (\<lambda>s. case to_numeric P ctx s of None \<Rightarrow> 0 | Some n \<Rightarrow> the (safe_int64 P n)) ctx"
    by (intro map_cong refl) (auto split: option.splits)
  ultimately show ?thesis
    by (simp add: fillna0_astype_Int64_def comp_def)
qed

lemma fillna0_astype_Int64_not_castable:
  assumes "\<not> castable P ctx"
  shows "fillna0_astype_Int64 P (map (to_numeric P ctx) ctx) = None"
proof -
  let ?f = "\<lambda>s. case to_numeric P ctx s of None \<Rightarrow> Some 0 | Some n \<Rightarrow> safe_int64 P n"
  have "\<not> list_all (\<lambda>s. ?f s \<noteq> None) ctx"
    using assms by (auto simp: castable_def list_all_iff split: option.splits)
  then have "those (map ?f ctx) = None"
    by (rule those_map_None)
  then show ?thesis
    by (simp add: fillna0_astype_Int64_def comp_def)
qed

text \<open>
  C2, as the code has it. For a column whose declared type contains \<open>int\<close>, holding text:
  the empty string and the tokens \<open>NULL\<close>, \<open>null\<close>, \<open>NaN\<close>, \<open>nan\<close> are first replaced by the
  text \<open>0\<close>. When every text that then reads as a number reads as an integral one, the
  column becomes a column of integers, one for each row, never missing: 0 where the
  text does not read as a number, otherwise the integer it reads as. When some text
  reads as a number that is not integral, the cast is refused for the whole column: the
  column stays text, with only the placeholders replaced, and the refusal is reported
  (a warning in the log), not raised.
\<close>

theorem int_column_coercion:
  assumes "is_int_type dtype" and "replaced = map zero_placeholders xs"
  shows "(castable P replaced \<longrightarrow>
            (\<exists>is. coerce_column P col dtype (StrCol xs) = (IntCol is, True)
                   \<and> length is = length xs
                   \<and> (\<forall>i<length xs.
                         (to_numeric P replaced (replaced ! i) = None \<longrightarrow> is ! i = 0)
                       \<and> (\<forall>n. to_numeric P replaced (replaced ! i) = Some n
                                \<longrightarrow> safe_int64 P n = Some (is ! i))
                       \<and> (xs ! i \<in> set [[], ''NULL'', ''null'', ''NaN'', ''nan'']
                                \<longrightarrow> replaced ! i = ''0''))))
         \<and> (\<not> castable P replaced \<longrightarrow>
              coerce_column P col dtype (StrCol xs) = (StrCol replaced, False))"
proof (intro conjI impI)
  assume c: "castable P replaced"
  let ?is = "map (\<lambda>s. case to_numeric P replaced s of None \<Rightarrow> 0 | Some n \<Rightarrow> the (safe_int64 P n)) replaced"
  have eq: "coerce_column P col dtype (StrCol xs) = (IntCol ?is, True)"
    using assms fillna0_astype_Int64_castable[OF c]
    by (simp add: coerce_column_def Let_def)
  have len: "length ?is = length xs"
    using assms(2) by simp
  have rows: "(to_numeric P replaced (replaced ! i) = None \<longrightarrow> ?is ! i = 0)
      \<and> (\<forall>n. to_numeric P replaced (replaced ! i) = Some n \<longrightarrow> safe_int64 P n = Some (?is ! i))
      \<and> (xs ! i \<in> set [[], ''NULL'', ''null'', ''NaN'', ''nan''] \<longrightarrow> replaced ! i = ''0'')"
    if i: "i < length xs" for i
  proof -
    have il: "i < length replaced" using i assms(2) by simp
    then have mem: "replaced ! i \<in> set replaced" by simp
    have "safe_int64 P n \<noteq> None" if "to_numeric P replaced (replaced ! i) = Some n" for n
      using c mem that by (auto simp: castable_def list_all_iff split: option.splits)
    moreover have "replaced ! i = zero_placeholders (xs ! i)"
      using i assms(2) by simp
    ultimately show ?thesis
      using il by (auto simp: zero_placeholders_def)
  qed
  from eq len rows show "\<exists>is. coerce_column P col dtype (StrCol xs) = (IntCol is, True)
      \<and> length is = length xs
      \<and> (\<forall>i<length xs.
            (to_numeric P replaced (replaced ! i) = None \<longrightarrow> is ! i = 0)
          \<and> (\<forall>n. to_numeric P replaced (replaced ! i) = Some n \<longrightarrow> safe_int64 P n = Some (is ! i))
          \<and> (xs ! i \<in> set [[], ''NULL'', ''null'', ''NaN'', ''nan''] \<longrightarrow> replaced ! i = ''0''))"
    by blast
next
  assume "\<not> castable P replaced"
  then show "coerce_column P col dtype (StrCol xs) = (StrCol replaced, False)"
    using assms fillna0_astype_Int64_not_castable[of P replaced]
    by (simp add: coerce_column_def Let_def)
qed

theorem int_column_coercion_witness:
  "is_int_type ''int''
   \<and> castable ref_pandas (map zero_placeholders ['''', ''7'', ''abc'', ''NULL''])
   \<and> coerce_column ref_pandas ''ID'' ''int'' (StrCol ['''', ''7'', ''abc'', ''NULL'']) =
       (IntCol [0, 7, 0, 0], True)"
proof -
  have a: "is_int_type ''int''"
    by code_simp
  have b: "castable ref_pandas (map zero_placeholders ['''', ''7'', ''abc'', ''NULL''])"
    by code_simp
  have c: "fst (coerce_column ref_pandas ''ID'' ''int'' (StrCol ['''', ''7'', ''abc'', ''NULL''])) =
             IntCol [0, 7, 0, 0]"
    by code_simp
  from int_column_coercion[OF a refl, of ref_pandas "['''', ''7'', ''abc'', ''NULL'']" "''ID''"] b
  obtain "is" where "coerce_column ref_pandas ''ID'' ''int'' (StrCol ['''', ''7'', ''abc'', ''NULL'']) =
      (IntCol is, True)"
    by blast
  with a b c show ?thesis by simp
qed

text \<open>
  The claim as written promises an integer in every row. Here \<open>1.5\<close> reads as a number that
  is not integral, so the cast is refused and the whole column stays text: \<open>abc\<close> is not
  turned into 0, and only the blank has become the text \<open>0\<close>.
\<close>

theorem int_column_fraction_counterexample:
  "is_int_type ''int''
   \<and> process ref_pandas ''tcn'' ''recordDump'' ex_schema_int ex_df_fraction =
       ([(''ID'', StrCol [''1.5'', ''abc'', ''0''])], [(WARNING, CouldNotCoerce ''ID'' ''int'')])"
  by code_simp

lemma str_remove_single: "str_remove [d] s = filter (\<lambda>c. c \<noteq> d) s"
  by (induction s) auto

lemma strip_currency_filter:
  "strip_currency s = filter (\<lambda>c. c \<noteq> CHR ''$'' \<and> c \<noteq> CHR '','') s"
  by (simp add: strip_currency_def str_remove_single conj_commute)

text \<open>
  C3, as the code has it. For a column whose declared type contains \<open>float\<close>, \<open>decimal\<close>,
  \<open>numeric\<close> or \<open>money\<close> (and not \<open>int\<close>, which is tested first), holding text: every \<open>$\<close>
  and every \<open>,\<close> is removed from each value, wherever it stands, and the rest is read as
  a number. So \<open>$1,234.50\<close> is read as \<open>1234.50\<close> is, and a value that does not read as a
  number after the removal is missing, not zero.
\<close>

theorem decimal_column_coercion:
  assumes "is_float_type dtype" and "\<not> is_int_type dtype"
    and "stripped = map strip_currency xs"
  shows "(\<exists>ns. coerce_column P col dtype (StrCol xs) = (NumCol ns, True)
               \<and> length ns = length xs
               \<and> (\<forall>i<length xs.
                     ns ! i = to_numeric P stripped (strip_currency (xs ! i))
                   \<and> (xs ! i = ''$1,234.50'' \<longrightarrow> ns ! i = to_numeric P stripped ''1234.50'')))
         \<and> (\<forall>s. strip_currency s = filter (\<lambda>c. c \<noteq> CHR ''$'' \<and> c \<noteq> CHR '','') s)"
proof -
  let ?ns = "map (to_numeric P stripped) stripped"
  have eq: "coerce_column P col dtype (StrCol xs) = (NumCol ?ns, True)"
    using assms by (simp add: coerce_column_def Let_def)
  have len: "length ?ns = length xs"
    using assms(3) by simp
  have ex: "strip_currency ''$1,234.50'' = ''1234.50''"
    by (simp add: strip_currency_filter)
  have rows: "?ns ! i = to_numeric P stripped (strip_currency (xs ! i))
      \<and> (xs ! i = ''$1,234.50'' \<longrightarrow> ?ns ! i = to_numeric P stripped ''1234.50'')"
    if "i < length xs" for i
    using that assms(3) ex by auto
  from eq len rows strip_currency_filter show ?thesis by blast
qed

theorem decimal_column_coercion_witness:
  "is_float_type ''money'' \<and> \<not> is_int_type ''money''
   \<and> coerce_column ref_pandas ''Amount'' ''money'' (StrCol [''$1,234.50'', ''x'', ''12'']) =
       (NumCol [Some (2469 / 2), None, Some 12], True)"
proof -
  have a: "is_float_type ''money''"
    by code_simp
  have b: "\<not> is_int_type ''money''"
    by code_simp
  have c: "fst (coerce_column ref_pandas ''Amount'' ''money'' (StrCol [''$1,234.50'', ''x'', ''12''])) =
             NumCol [Some (2469 / 2), None, Some 12]"
    by code_simp
  from decimal_column_coercion[OF a b refl, of ref_pandas "''Amount''" "[''$1,234.50'', ''x'', ''12'']"]
  obtain ns where "coerce_column ref_pandas ''Amount'' ''money'' (StrCol [''$1,234.50'', ''x'', ''12'']) =
      (NumCol ns, True)"
    by blast
  with a b c show ?thesis by simp
qed

text \<open>
  The claim as written strips a leading \<open>$\<close>. In \<open>1$2\<close> the \<open>$\<close> does not lead: stripped as the
  claim says, the text is still \<open>1$2\<close>, which is not a number, and the value would be
  missing. The code removes the \<open>$\<close> in the middle too and stores 12.
\<close>

theorem decimal_column_inner_dollar_counterexample:
  "spec_strip_currency ''1$2'' = ''1$2''
   \<and> to_numeric ref_pandas [''1$2''] ''1$2'' = None
   \<and> coerce_column ref_pandas ''Amount'' ''money'' (StrCol [''1$2'']) = (NumCol [Some 12], True)"
  by code_simp

section \<open>The coercion stage run twice\<close>



section \<open>The values of a \<open>_Parsed\<close> column\<close>





section \<open>Facts about the run\<close>

lemma logging_simps [simp]:
  "logged (logging lv m st) = logged st @ [(lv, m)]"
  "table (logging lv m st) = table st"
  "trace (logging lv m st) = trace st"
  by (simp_all add: logging_def)

lemma record_event_simps [simp]:
  "logged (record_event ev st) = logged st"
  "table (record_event ev st) = table st"
  "trace (record_event ev st) = trace st @ [ev]"
  by (simp_all add: record_event_def)

lemma set_column_not_Nil: "set_column df name col \<noteq> []"
  by (induction df name col rule: set_column.induct) auto

lemma foldl_set_column_not_Nil:
  "acc \<noteq> [] \<or> rows \<noteq> [] \<Longrightarrow>
   foldl (\<lambda>schema (name, dtype). set_column schema name dtype) acc rows \<noteq> []"
  by (induction rows arbitrary: acc) (auto simp: set_column_not_Nil split: prod.splits)

lemma build_schema_Nil: "build_schema rows = [] \<longleftrightarrow> rows = []"
  using foldl_set_column_not_Nil[of "[]" rows] by (auto simp: build_schema_def)

lemma columns_foldl_set_column:
  "distinct (columns acc) \<Longrightarrow>
   distinct (columns (foldl (\<lambda>schema (name, dtype). set_column schema name dtype) acc rows))"
  by (induction rows arbitrary: acc) (auto simp: distinct_set_column split: prod.splits)

lemma build_schema_distinct: "distinct (map fst (build_schema rows))"
  using columns_foldl_set_column[of "[]" rows] by (simp add: build_schema_def columns_def)

lemma get_db_engine_state:
  "get_db_engine W st = (r, st1) \<Longrightarrow> table st1 = table st \<and> trace st1 = trace st"
  by (auto simp: get_db_engine_def split: if_splits option.splits exn.splits)

lemma get_table_schema_state:
  "get_table_schema W table_name schema_name st = (r, st1) \<Longrightarrow>
   table st1 = table st \<and> trace st1 = trace st"
  by (auto simp: get_table_schema_def Let_def split: if_splits sum.splits exn.splits)

lemma concat_chunked: "0 < n \<Longrightarrow> concat (chunked n xs) = xs"
proof (induction n xs rule: chunked.induct)
  case (1 n xs)
  show ?case
  proof (cases "xs = []")
    case True
    then show ?thesis by simp
  next
    case False
    with 1 have "concat (chunked n (drop n xs)) = drop n xs" by simp
    with False "1.prems" show ?thesis
      by (subst chunked.simps) simp
  qed
qed

lemma insert_chunks_result:
  "insert_chunks W cs (pending, st) = (r, st1) \<Longrightarrow>
   table st1 = table st \<and> logged st1 = logged st
   \<and> (\<exists>k\<le>length cs. trace st1 = trace st @ map InsertChunk (take k cs)
          \<and> (\<forall>p. r = Inr p \<longrightarrow> k = length cs \<and> p = pending @ concat cs))"
proof (induction W cs "(pending, st)" arbitrary: pending st rule: insert_chunks.induct)
  case (1 W pending st)
  then show ?case by auto
next
  case (2 W chunk rest pending st)
  show ?case
  proof (cases "execute_insert W chunk")
    case (Some e)
    with "2.prems" have "r = Inl e" "st1 = record_event (InsertChunk chunk) st" by auto
    then show ?thesis
      by (auto intro!: exI[of _ "Suc 0"])
  next
    case None
    with "2.prems" have
      "insert_chunks W rest (pending @ chunk, record_event (InsertChunk chunk) st) = (r, st1)"
      by simp
    from "2.hyps"[OF None this] obtain k where
        k: "k \<le> length rest"
        "trace st1 = trace st @ InsertChunk chunk # map InsertChunk (take k rest)"
        "\<forall>p. r = Inr p \<longrightarrow> k = length rest \<and> p = pending @ chunk @ concat rest"
      and tl: "table st1 = table st" "logged st1 = logged st"
      by auto
    then show ?thesis
      by (auto intro!: exI[of _ "Suc k"])
  qed
qed

end
